theory Spec2Isabelle
  imports Main "HOL-Library.Sublist" "HOL-Library.AList"
begin

section \<open>Python values\<close>

text \<open>
  The module \<open>pyrobud/modules/antibot.py\<close> is embedded function by function.
  Exceptions are values of type \<open>error\<close>; a function that may raise returns
  \<open>error + 'a\<close> with \<open>Inl\<close> for the exception.
\<close>

datatype error = TypeError | AttributeError | ValueError | RPCError

text \<open>
  The values the module keeps in its database: \<open>True\<close>, integer times, and
  \<open>None\<close> for what \<open>get\<close> returns without a default.
\<close>

datatype pyval = PyNone | PyBool bool | PyInt int

text \<open>Python truthiness of a stored value (\<open>if v\<close>, \<open>not v\<close>).\<close>

fun truthy :: "pyval \<Rightarrow> bool" where
  "truthy PyNone = False"
| "truthy (PyBool b) = b"
| "truthy (PyInt n) = (n \<noteq> 0)"

text \<open>
  The number a stored value compares as: \<open>bool\<close> is a subclass of \<open>int\<close>,
  and an ordering comparison of a number with \<open>None\<close> raises \<open>TypeError\<close>.
\<close>

fun num_of :: "pyval \<Rightarrow> error + int" where
  "num_of PyNone = Inl TypeError"
| "num_of (PyBool b) = Inr (if b then 1 else 0)"
| "num_of (PyInt n) = Inr n"

text \<open>Truthiness of an optional string: \<open>None\<close> and \<open>""\<close> are falsy.\<close>

fun truthy_str :: "string option \<Rightarrow> bool" where
  "truthy_str None = False"
| "truthy_str (Some s) = (s \<noteq> [])"

subsection \<open>Formatting integers, as an f-string does\<close>

definition digit_char :: "nat \<Rightarrow> char" where
  "digit_char d = ''0123456789'' ! d"

fun str_nat :: "nat \<Rightarrow> string" where
  "str_nat n = (if n < 10 then [digit_char n] else str_nat (n div 10) @ [digit_char (n mod 10)])"

declare str_nat.simps [simp del]

definition str_int :: "int \<Rightarrow> string" where
  "str_int i = (if i < 0 then CHR ''-'' # str_nat (nat (- i)) else str_nat (nat i))"

subsection \<open>The \<open>string\<close> module\<close>

definition ascii_uppercase :: string where
  "ascii_uppercase = ''ABCDEFGHIJKLMNOPQRSTUVWXYZ''"

definition ascii_lowercase :: string where
  "ascii_lowercase = ''abcdefghijklmnopqrstuvwxyz''"

text \<open>
  \<open>str.lower()\<close> on the ASCII letters; every other character is left as it is
  (the characters of a HOL string are bytes).
\<close>

definition lower_char :: "char \<Rightarrow> char" where
  "lower_char c = (case map_of (zip ascii_uppercase ascii_lowercase) c of None \<Rightarrow> c | Some l \<Rightarrow> l)"

definition lower :: "string \<Rightarrow> string" where
  "lower s = map lower_char s"

section \<open>The key-value store\<close>

text \<open>
  Modelled from the spec: the database wrapper of \<open>pyrobud/util\<close> is not among the
  sources. The spec gives its interface: \<open>get(key, default)\<close>, \<open>put(key, value)\<close>,
  \<open>delete(key)\<close> and an iteration over the pairs whose key starts with a prefix,
  finite and restartable. The store is an association list from keys to values; a missing
  key reads as the default.
\<close>

type_synonym store = "(string \<times> pyval) list"

definition db_get :: "store \<Rightarrow> string \<Rightarrow> pyval \<Rightarrow> pyval" where
  "db_get s k d = (case map_of s k of None \<Rightarrow> d | Some v \<Rightarrow> v)"

definition db_put :: "store \<Rightarrow> string \<Rightarrow> pyval \<Rightarrow> store" where
  "db_put s k v = AList.update k v s"

definition db_delete :: "store \<Rightarrow> string \<Rightarrow> store" where
  "db_delete s k = AList.delete k s"

definition db_iterator :: "store \<Rightarrow> string \<Rightarrow> (string \<times> pyval) list" where
  "db_iterator s p = filter (\<lambda>(k, v). prefix p k) s"

text \<open>
  Modelled from the spec: \<open>prefixed_db(ns)\<close>, a namespace of the root store. Its
  keys are the root's keys that start with \<open>ns\<close>, read and written without it.
\<close>

definition prefixed_get :: "string \<Rightarrow> store \<Rightarrow> string \<Rightarrow> pyval \<Rightarrow> pyval" where
  "prefixed_get ns s k d = db_get s (ns @ k) d"

definition prefixed_put :: "string \<Rightarrow> store \<Rightarrow> string \<Rightarrow> pyval \<Rightarrow> store" where
  "prefixed_put ns s k v = db_put s (ns @ k) v"

definition prefixed_delete :: "string \<Rightarrow> store \<Rightarrow> string \<Rightarrow> store" where
  "prefixed_delete ns s k = db_delete s (ns @ k)"

definition prefixed_iterator :: "string \<Rightarrow> store \<Rightarrow> string \<Rightarrow> (string \<times> pyval) list" where
  "prefixed_iterator ns s p = map (\<lambda>(k, v). (drop (length ns) k, v)) (db_iterator s (ns @ p))"

text \<open>
  \<open>on_load\<close>: \<open>self.group_db = self.db.prefixed_db("groups.")\<close> and
  \<open>self.user_db = self.db.prefixed_db("users.")\<close>.
\<close>

definition group_db_get :: "store \<Rightarrow> string \<Rightarrow> pyval \<Rightarrow> pyval" where
  "group_db_get = prefixed_get ''groups.''"

definition group_db_put :: "store \<Rightarrow> string \<Rightarrow> pyval \<Rightarrow> store" where
  "group_db_put = prefixed_put ''groups.''"

definition group_db_delete :: "store \<Rightarrow> string \<Rightarrow> store" where
  "group_db_delete = prefixed_delete ''groups.''"

definition group_db_iterator :: "store \<Rightarrow> string \<Rightarrow> (string \<times> pyval) list" where
  "group_db_iterator = prefixed_iterator ''groups.''"

definition user_db_get :: "store \<Rightarrow> string \<Rightarrow> pyval \<Rightarrow> pyval" where
  "user_db_get = prefixed_get ''users.''"

definition user_db_put :: "store \<Rightarrow> string \<Rightarrow> pyval \<Rightarrow> store" where
  "user_db_put = prefixed_put ''users.''"

definition user_db_delete :: "store \<Rightarrow> string \<Rightarrow> store" where
  "user_db_delete = prefixed_delete ''users.''"

definition user_db_iterator :: "store \<Rightarrow> string \<Rightarrow> (string \<times> pyval) list" where
  "user_db_iterator = prefixed_iterator ''users.''"

text \<open>The keys the module builds with f-strings.\<close>

definition enabled_key :: "int \<Rightarrow> string" where
  "enabled_key chat = str_int chat @ ''.enabled''"

definition enable_time_key :: "int \<Rightarrow> string" where
  "enable_time_key chat = str_int chat @ ''.enable_time''"

definition has_spoken_key :: "int \<Rightarrow> int \<Rightarrow> string" where
  "has_spoken_key user chat = str_int user @ ''.has_spoken_in_'' @ str_int chat"

section \<open>The data the module reads\<close>

text \<open>
  Telethon's objects, with the fields the module uses. A field that holds an object or
  \<open>None\<close> and is only tested for truth is a \<open>bool\<close>: whether the object is there.
  Times are whole seconds since the epoch, as Telegram sends them.
\<close>

datatype entity =
    MessageEntityUrl
  | MessageEntityTextUrl
  | MessageEntityEmail
  | MessageEntityPhone
  | MessageEntityMention
  | MessageEntityHashtag
  | MessageEntityBold
  | MessageEntityCode

record user =
  user_id :: int
  username :: "string option"
  first_name :: "string option"
  last_name :: "string option"
  user_photo :: bool

text \<open>What \<open>GetFullUserRequest\<close> returns; \<open>about\<close> is the bio.\<close>

record full_user =
  about :: "string option"

record admin_rights =
  delete_messages :: bool
  ban_users :: bool

text \<open>
  The participant types the module tells apart. The creator's record has no join
  date; the other two carry one.
\<close>

datatype participant =
    ChannelParticipantCreator
  | ChannelParticipantAdmin int admin_rights
  | ChannelParticipant int

fun participant_date :: "participant \<Rightarrow> error + int" where
  "participant_date ChannelParticipantCreator = Inl AttributeError"
| "participant_date (ChannelParticipantAdmin d r) = Inr d"
| "participant_date (ChannelParticipant d) = Inr d"

text \<open>
  What a message and a chat action share: \<open>is_group\<close>, \<open>is_channel\<close>,
  \<open>chat_id\<close>, and the title of the chat that \<open>get_chat()\<close> returns.
\<close>

record event =
  is_group :: bool
  is_channel :: bool
  chat_id :: int
  chat_title :: string

text \<open>
  A message. \<open>sender\<close> is the user \<open>get_sender()\<close> returns; \<open>msg.sender_id\<close>
  is that user's id.
\<close>

record message = event +
  out :: bool
  date :: "int option"
  forward :: bool
  photo :: bool
  entities :: "entity list option"
  raw_text :: "string option"
  sender :: user

definition sender_id :: "message \<Rightarrow> int" where
  "sender_id msg = user_id (sender msg)"

text \<open>A chat action. \<open>action_user\<close> is the user \<open>get_user()\<close> returns.\<close>

record chat_action = event +
  user_left :: bool
  user_added :: bool
  user_joined :: bool
  action_user_id :: int
  action_user :: user

text \<open>
  What the module asks of the outside: the bot's own id, the clock
  (\<open>util.time.sec()\<close>), the two requests to Telegram, which may fail, and Nostril's
  \<open>nonsense\<close>, which raises \<open>ValueError\<close> on a string it cannot process.
\<close>

record env =
  uid :: int
  time_sec :: int
  get_participant :: "int \<Rightarrow> int \<Rightarrow> error + participant"
  get_full_user :: "int \<Rightarrow> error + full_user"
  nonsense :: "string \<Rightarrow> error + bool"

text \<open>What the module does to the outside, in the order it does it.\<close>

datatype effect =
    Sleep nat
  | DeleteUserHistoryRequest int int
  | KickParticipant int int
  | LogInfo string
  | LogWarn string
  | Reply int string nat
  | DispatchEvent string string
  | DeleteEvent int

text \<open>The state a handler runs in: the module's database and what it has done so far.\<close>

record world =
  db :: store
  effects :: "effect list"

section \<open>Content heuristics\<close>

definition suspicious_keywords :: "string list" where
  "suspicious_keywords =
     [''invest'', ''profit'', ''binance'', ''binanse'', ''bitcoin'', ''testnet'', ''bitmex'']"

definition suspicious_entities :: "entity list" where
  "suspicious_entities =
     [MessageEntityUrl, MessageEntityTextUrl, MessageEntityEmail, MessageEntityPhone]"

definition suspicious_first_names :: "string list" where
  "suspicious_first_names =
     [''announcement'', ''info'', ''urgent'', ''limited'', ''holiday'', ''verified'',
      ''solidified'', ''recommended'', ''temporarily'']"

text \<open>The loop of \<open>msg_has_suspicious_entity\<close>: return at the first entity of a listed class.\<close>

fun entity_loop :: "entity list \<Rightarrow> bool" where
  "entity_loop [] = False"
| "entity_loop (e # es) = (if e \<in> set suspicious_entities then True else entity_loop es)"

definition msg_has_suspicious_entity :: "message \<Rightarrow> bool" where
  "msg_has_suspicious_entity msg =
     (case entities msg of
        None \<Rightarrow> False
      | Some es \<Rightarrow> if es = [] then False else entity_loop es)"

text \<open>The loop of \<open>msg_has_suspicious_keyword\<close>: \<open>kw in l_text\<close> is a substring test.\<close>

fun keyword_loop :: "string list \<Rightarrow> string \<Rightarrow> bool" where
  "keyword_loop [] l_text = False"
| "keyword_loop (kw # kws) l_text = (if sublist kw l_text then True else keyword_loop kws l_text)"

definition msg_has_suspicious_keyword :: "message \<Rightarrow> bool" where
  "msg_has_suspicious_keyword msg =
     (if \<not> truthy_str (raw_text msg) then False
      else keyword_loop suspicious_keywords (lower (the (raw_text msg))))"

definition msg_content_suspicious :: "message \<Rightarrow> bool" where
  "msg_content_suspicious msg = (msg_has_suspicious_entity msg \<or> msg_has_suspicious_keyword msg)"

definition msg_data_is_suspicious :: "message \<Rightarrow> bool" where
  "msg_data_is_suspicious msg =
     (let incoming = \<not> out msg;
          has_date = (date msg \<noteq> None);
          forwarded = forward msg
      in if incoming \<and> has_date
         then (forwarded \<and> photo msg) \<or> msg_content_suspicious msg
         else False)"

section \<open>Timing heuristics\<close>

text \<open>
  \<open>msg_is_suspicious\<close> reads the store and asks Telegram for the sender's participant
  record; it writes nothing. \<open>delta.total_seconds()\<close> is the difference of the two times
  in seconds, and \<open>join_time_sec\<close> is the join time itself.
\<close>

definition msg_is_suspicious :: "env \<Rightarrow> store \<Rightarrow> message \<Rightarrow> error + bool" where
  "msg_is_suspicious e s msg =
     (if \<not> msg_data_is_suspicious msg then Inr False
      else
        (case get_participant e (chat_id msg) (user_id (sender msg)) of
           Inl err \<Rightarrow> Inl err
         | Inr participant \<Rightarrow>
             if participant = ChannelParticipantCreator then Inr False
             else
               (case participant_date participant of
                  Inl err \<Rightarrow> Inl err
                | Inr join_time_sec \<Rightarrow>
                    (case date msg of
                       None \<Rightarrow> Inl TypeError
                     | Some sent \<Rightarrow>
                         (case num_of (db_get s ''threshold_time'' (PyInt 30)) of
                            Inl err \<Rightarrow> Inl err
                          | Inr threshold_time \<Rightarrow>
                              if sent - join_time_sec \<le> threshold_time then Inr True
                              else
                                (case num_of (group_db_get s (enable_time_key (chat_id msg))
                                                PyNone) of
                                   Inl err \<Rightarrow> Inl err
                                 | Inr enable_time \<Rightarrow>
                                     if join_time_sec > enable_time
                                     then if \<not> truthy (user_db_get s
                                               (has_spoken_key (user_id (sender msg)) (chat_id msg))
                                               (PyBool False))
                                          then Inr True
                                          else Inr False
                                     else Inr False))))))"

section \<open>Profile heuristics\<close>

definition nostril_warning :: "string \<Rightarrow> string" where
  "nostril_warning name =
     ''Nostril'' @ [CHR 0x27] @ ''s nonsense word checker failed to process name ''
       @ [CHR 0x27] @ name @ [CHR 0x27]"

definition profile_check_nonsense :: "env \<Rightarrow> world \<Rightarrow> user \<Rightarrow> (error + bool) \<times> world" where
  "profile_check_nonsense e w u =
     (case username u of
        None \<Rightarrow> (Inr False, w)
      | Some name \<Rightarrow>
          if name \<noteq> [] \<and> 10 \<le> length name \<and> length name \<le> 12 then
            if hd name \<notin> set ascii_uppercase then (Inr False, w)
            else if \<not> list_all (\<lambda>c. c \<in> set ascii_lowercase) (tl name) then (Inr False, w)
            else if user_photo u then (Inr False, w)
            else
              (case get_full_user e (user_id u) of
                 Inl err \<Rightarrow> (Inl err, w)
               | Inr full \<Rightarrow>
                   if truthy_str (about full) then (Inr False, w)
                   else
                     (case nonsense e name of
                        Inr is_nonsense \<Rightarrow>
                          if \<not> is_nonsense then (Inr False, w) else (Inr True, w)
                      | Inl err \<Rightarrow>
                          if err = ValueError
                          then (Inr True,
                                w\<lparr>effects := effects w @ [LogWarn (nostril_warning name)]\<rparr>)
                          else (Inl err, w)))
          else (Inr False, w))"

text \<open>\<open>user.first_name.lower()\<close> raises \<open>AttributeError\<close> when the first name is \<open>None\<close>.\<close>

definition profile_check_crypto :: "user \<Rightarrow> error + bool" where
  "profile_check_crypto u =
     (case first_name u of
        None \<Rightarrow> Inl AttributeError
      | Some fname \<Rightarrow>
          if lower fname \<in> set suspicious_first_names then Inr True
          else if sublist ''t.me'' fname
                  \<or> (truthy_str (last_name u) \<and> sublist ''t.me'' (the (last_name u)))
          then Inr True
          else Inr False)"

definition user_is_suspicious :: "env \<Rightarrow> world \<Rightarrow> user \<Rightarrow> (error + bool) \<times> world" where
  "user_is_suspicious e w u =
     (case profile_check_nonsense e w u of
        (Inl err, w') \<Rightarrow> (Inl err, w')
      | (Inr is_nonsense, w') \<Rightarrow>
          if is_nonsense then (Inr True, w')
          else (case profile_check_crypto u of
                  Inl err \<Rightarrow> (Inl err, w')
                | Inr is_crypto \<Rightarrow> if is_crypto then (Inr True, w') else (Inr False, w')))"

section \<open>Taking action\<close>

definition kicked_reply :: "int \<Rightarrow> string" where
  "kicked_reply i =
     [CHR 0xE2, CHR 0x9D, CHR 0xAF, CHR 0xE2, CHR 0x9D, CHR 0xAF]
       @ '' **Kicked auto-detected spambot** with ID '' @ [CHR 0x60] @ str_int i @ [CHR 0x60]"

text \<open>
  \<open>take_action\<close> touches no key of the store. Its calls to Telegram are recorded in
  the order the source makes them.
\<close>

definition take_action :: "world \<Rightarrow> 'a event_scheme \<Rightarrow> user \<Rightarrow> world" where
  "take_action w ev u =
     w\<lparr>effects := effects w @
        [Sleep 1,
         DeleteUserHistoryRequest (chat_id ev) (user_id u),
         KickParticipant (chat_id ev) (user_id u),
         LogInfo (''Kicked spambot with ID '' @ str_int (user_id u) @ '' in group ''
                    @ [CHR 0x22] @ chat_title ev @ [CHR 0x22]),
         Reply (chat_id ev) (kicked_reply (user_id u)) 10,
         DispatchEvent ''stat_event'' ''spambots_banned'',
         DeleteEvent (chat_id ev)]\<rparr>"

section \<open>The handlers\<close>

definition is_enabled :: "store \<Rightarrow> 'a event_scheme \<Rightarrow> bool" where
  "is_enabled s ev = (is_group ev \<and> truthy (group_db_get s (enabled_key (chat_id ev)) (PyBool False)))"

definition on_message :: "env \<Rightarrow> world \<Rightarrow> message \<Rightarrow> (error + unit) \<times> world" where
  "on_message e w msg =
     (if is_enabled (db w) msg then
        (case msg_is_suspicious e (db w) msg of
           Inl err \<Rightarrow> (Inl err, w)
         | Inr suspicious \<Rightarrow>
             if suspicious then (Inr (), take_action w msg (sender msg))
             else (Inr (), w\<lparr>db := user_db_put (db w)
                                    (has_spoken_key (sender_id msg) (chat_id msg)) (PyBool True)\<rparr>))
      else (Inr (), w))"

text \<open>
  \<open>clear_group\<close>: two loops, each over the pairs the iterator yields when the loop
  starts, deleting as it goes.
\<close>

definition clear_group :: "int \<Rightarrow> store \<Rightarrow> store" where
  "clear_group group_id s =
     (let s1 = fold (\<lambda>(key, _) acc. group_db_delete acc key)
                 (group_db_iterator s (str_int group_id @ ''.'')) s;
          s2 = fold (\<lambda>(key, _) acc.
                   if suffix (''.has_spoken_in_'' @ str_int group_id) key
                   then user_db_delete acc key else acc)
                 (user_db_iterator s1 []) s1
      in s2)"

definition on_chat_action :: "env \<Rightarrow> world \<Rightarrow> chat_action \<Rightarrow> (error + unit) \<times> world" where
  "on_chat_action e w action =
     (if user_left action \<and> is_enabled (db w) action then
        (let w1 = w\<lparr>db := user_db_delete (db w)
                            (has_spoken_key (action_user_id action) (chat_id action))\<rparr>
         in if action_user_id action = uid e
            then (Inr (),
                  w1\<lparr>effects := effects w1 @
                        [LogInfo (''Cleaning up settings for group '' @ str_int (chat_id action))],
                      db := clear_group (chat_id action) (db w1)\<rparr>)
            else (Inr (), w1))
      else if \<not> user_added action \<and> \<not> user_joined action then (Inr (), w)
      else if \<not> is_enabled (db w) action then (Inr (), w)
      else (case user_is_suspicious e w (action_user action) of
              (Inl err, w') \<Rightarrow> (Inl err, w')
            | (Inr suspicious, w') \<Rightarrow>
                if suspicious then (Inr (), take_action w' action (action_user action))
                else (Inr (), w')))"

definition not_a_group :: string where
  "not_a_group = ''__Antibot can only be used in groups.__''"

definition not_a_supergroup :: string where
  "not_a_supergroup = ''__Please convert this group to a supergroup in order to enable antibot.__''"

definition missing_rights :: string where
  "missing_rights = ''__Antibot requires the **Delete Messages** and **Ban users** permissions.__''"

definition not_an_admin :: string where
  "not_an_admin =
     ''__I must be an admin with the **Delete Messages** and **Ban users** permissions for antibot to work.__''"

definition now_status :: "bool \<Rightarrow> string" where
  "now_status state =
     ''Antibot is now **'' @ (if state then ''enabled'' else ''disabled'') @ ''** in this group.''"

text \<open>The two \<open>put\<close>s of the enabling branch of \<open>cmd_antibot\<close>.\<close>

definition enable_group :: "env \<Rightarrow> world \<Rightarrow> int \<Rightarrow> world" where
  "enable_group e w chat =
     w\<lparr>db := group_db_put (group_db_put (db w) (enabled_key chat) (PyBool True))
                (enable_time_key chat) (PyInt (time_sec e))\<rparr>"

definition cmd_antibot :: "env \<Rightarrow> world \<Rightarrow> message \<Rightarrow> (error + string) \<times> world" where
  "cmd_antibot e w msg =
     (if \<not> is_group msg then (Inr not_a_group, w)
      else if \<not> is_channel msg then (Inr not_a_supergroup, w)
      else
        (let state = \<not> truthy (group_db_get (db w) (enabled_key (chat_id msg)) (PyBool False))
         in if state then
              (case get_participant e (chat_id msg) (uid e) of
                 Inl err \<Rightarrow> (Inl err, w)
               | Inr ptcp \<Rightarrow>
                   (case ptcp of
                      ChannelParticipantCreator \<Rightarrow>
                        (Inr (now_status state), enable_group e w (chat_id msg))
                    | ChannelParticipantAdmin joined rights \<Rightarrow>
                        if \<not> delete_messages rights \<or> \<not> ban_users rights
                        then (Inr missing_rights, w)
                        else (Inr (now_status state), enable_group e w (chat_id msg))
                    | ChannelParticipant joined \<Rightarrow> (Inr not_an_admin, w)))
            else (Inr (now_status state), w\<lparr>db := clear_group (chat_id msg) (db w)\<rparr>)))"

section \<open>Concrete inputs\<close>

text \<open>A user, a message, a chat action and an environment the theorems are run on.\<close>

definition example_sender :: user where
  "example_sender = \<lparr>user_id = 7, username = Some ''Abcdefghij'', first_name = None,
                     last_name = None, user_photo = False\<rparr>"

definition example_msg :: message where
  "example_msg = \<lparr>is_group = True, is_channel = True, chat_id = 5, chat_title = ''chat'',
                  out = False, date = Some 130, forward = True, photo = True,
                  entities = None, raw_text = None, sender = example_sender\<rparr>"

definition example_env :: "participant \<Rightarrow> env" where
  "example_env p = \<lparr>uid = 1, time_sec = 1000,
                    get_participant = (\<lambda>chat u. Inr p),
                    get_full_user = (\<lambda>u. Inr \<lparr>about = None\<rparr>),
                    nonsense = (\<lambda>name. Inl ValueError)\<rparr>"

definition example_world :: "store \<Rightarrow> world" where
  "example_world s = \<lparr>db = s, effects = []\<rparr>"

definition example_departure :: chat_action where
  "example_departure = \<lparr>is_group = True, is_channel = True, chat_id = 5, chat_title = ''chat'',
                        user_left = True, user_added = False, user_joined = False,
                        action_user_id = 1, action_user = example_sender\<rparr>"

definition example_store :: store where
  "example_store =
     [(''groups.5.enabled'', PyBool True), (''groups.5.enable_time'', PyInt 50),
      (''users.7.has_spoken_in_5'', PyBool True), (''users.7.has_spoken_in_6'', PyBool True)]"

section \<open>Evaluating keys and reads\<close>

lemma example_keys:
  "enabled_key 5 = ''5.enabled''"
  "enable_time_key 5 = ''5.enable_time''"
  "has_spoken_key 7 5 = ''7.has_spoken_in_5''"
  "has_spoken_key 1 5 = ''1.has_spoken_in_5''"
  "str_int 5 = ''5''"
  by (simp_all add: enabled_key_def enable_time_key_def has_spoken_key_def str_int_def
      str_nat.simps digit_char_def)

lemmas store_defs =
  db_get_def group_db_get_def user_db_get_def prefixed_get_def

lemmas example_defs =
  example_sender_def example_msg_def example_env_def example_world_def

lemma keys_differ: "enabled_key c \<noteq> enable_time_key c"
  by (simp add: enabled_key_def enable_time_key_def)

lemma db_get_put_same: "db_get (db_put s k v) k d = v"
  by (simp add: db_get_def db_put_def update_conv')

lemma db_get_put_other: "k' \<noteq> k \<Longrightarrow> db_get (db_put s k v) k' d = db_get s k' d"
  by (simp add: db_get_def db_put_def update_conv')

lemma group_db_get_put_same: "group_db_get (group_db_put s k v) k d = v"
  by (simp add: group_db_get_def group_db_put_def prefixed_get_def prefixed_put_def db_get_put_same)

lemma group_db_get_put_other:
  "k' \<noteq> k \<Longrightarrow> group_db_get (group_db_put s k v) k' d = group_db_get s k' d"
  by (simp add: group_db_get_def group_db_put_def prefixed_get_def prefixed_put_def db_get_put_other)

lemma user_db_get_put_same: "user_db_get (user_db_put s k v) k d = v"
  by (simp add: user_db_get_def user_db_put_def prefixed_get_def prefixed_put_def db_get_put_same)

lemma enable_group_reads:
  "group_db_get (db (enable_group e w c)) (enabled_key c) d = PyBool True"
  "group_db_get (db (enable_group e w c)) (enable_time_key c) d = PyInt (time_sec e)"
  by (simp_all add: enable_group_def group_db_get_put_same group_db_get_put_other keys_differ)

lemma status_strings:
  "now_status True \<noteq> missing_rights" "now_status True \<noteq> not_an_admin"
  "missing_rights \<noteq> now_status True" "not_an_admin \<noteq> now_status True"
  by (simp_all add: now_status_def missing_rights_def not_an_admin_def)

section \<open>The message verdict\<close>

text \<open>
  C8. \<open>msg_data_is_suspicious\<close> is false for a message that is outgoing or has no date.
  For an incoming message with a date it is (forwarded and has a photo) or the content is
  suspicious, where the content is suspicious when it has a suspicious entity or a
  suspicious keyword.
\<close>

theorem msg_data_is_suspicious_spec:
  "(out msg \<or> date msg = None \<longrightarrow> \<not> msg_data_is_suspicious msg)
   \<and> (\<not> out msg \<and> date msg \<noteq> None \<longrightarrow>
        msg_data_is_suspicious msg = ((forward msg \<and> photo msg) \<or> msg_content_suspicious msg))
   \<and> msg_content_suspicious msg = (msg_has_suspicious_entity msg \<or> msg_has_suspicious_keyword msg)"
  by (simp add: msg_data_is_suspicious_def msg_content_suspicious_def)

theorem msg_data_is_suspicious_spec_witness:
  "out (example_msg\<lparr>out := True\<rparr>)
   \<and> \<not> msg_data_is_suspicious (example_msg\<lparr>out := True\<rparr>)
   \<and> \<not> out example_msg \<and> date example_msg \<noteq> None
   \<and> msg_data_is_suspicious example_msg
   \<and> forward example_msg \<and> photo example_msg"
  using msg_data_is_suspicious_spec [of "example_msg\<lparr>out := True\<rparr>"]
    msg_data_is_suspicious_spec [of example_msg]
  by (simp add: example_msg_def)

text \<open>
  C7. When the sender's participant record is the creator's, \<open>msg_is_suspicious\<close>
  returns false, whatever the message holds and whatever the store holds.
\<close>

theorem creator_is_exempt:
  assumes "get_participant e (chat_id msg) (user_id (sender msg)) = Inr ChannelParticipantCreator"
  shows "msg_is_suspicious e s msg = Inr False"
  using assms by (simp add: msg_is_suspicious_def)

theorem creator_is_exempt_witness:
  "get_participant (example_env ChannelParticipantCreator) (chat_id example_msg)
      (user_id (sender example_msg)) = Inr ChannelParticipantCreator
   \<and> msg_data_is_suspicious example_msg
   \<and> msg_is_suspicious (example_env ChannelParticipantCreator) [] example_msg = Inr False"
proof -
  have h: "get_participant (example_env ChannelParticipantCreator) (chat_id example_msg)
      (user_id (sender example_msg)) = Inr ChannelParticipantCreator"
    by (simp add: example_env_def)
  have d: "msg_data_is_suspicious example_msg"
    by (simp add: msg_data_is_suspicious_def example_msg_def)
  show ?thesis using h d creator_is_exempt [OF h, of "[]"] by simp
qed

text \<open>
  C1. A message whose data is suspicious, from a sender who is not the creator, sent at
  most \<open>threshold_time\<close> seconds after the sender joined, is suspicious. The threshold
  is read from the root of the store under \<open>threshold_time\<close>, 30 when the key is missing.
\<close>

theorem suspicious_within_join_window:
  assumes "msg_data_is_suspicious msg"
    and "get_participant e (chat_id msg) (user_id (sender msg)) = Inr p"
    and "p \<noteq> ChannelParticipantCreator"
    and "participant_date p = Inr joined"
    and "date msg = Some sent"
    and "num_of (db_get s ''threshold_time'' (PyInt 30)) = Inr threshold"
    and "sent - joined \<le> threshold"
  shows "msg_is_suspicious e s msg = Inr True"
  using assms by (simp add: msg_is_suspicious_def)

theorem suspicious_within_join_window_witness:
  "msg_data_is_suspicious example_msg
   \<and> get_participant (example_env (ChannelParticipant 100)) (chat_id example_msg)
        (user_id (sender example_msg)) = Inr (ChannelParticipant 100)
   \<and> ChannelParticipant 100 \<noteq> ChannelParticipantCreator
   \<and> participant_date (ChannelParticipant 100) = Inr 100
   \<and> date example_msg = Some 130
   \<and> num_of (db_get [] ''threshold_time'' (PyInt 30)) = Inr 30
   \<and> (130::int) - 100 \<le> 30
   \<and> msg_is_suspicious (example_env (ChannelParticipant 100)) [] example_msg = Inr True"
proof -
  have h1: "msg_data_is_suspicious example_msg"
    by (simp add: msg_data_is_suspicious_def example_msg_def)
  have h2: "get_participant (example_env (ChannelParticipant 100)) (chat_id example_msg)
        (user_id (sender example_msg)) = Inr (ChannelParticipant 100)"
    by (simp add: example_env_def)
  have h3: "ChannelParticipant 100 \<noteq> ChannelParticipantCreator" by simp
  have h4: "participant_date (ChannelParticipant 100) = Inr 100" by simp
  have h5: "date example_msg = Some 130" by (simp add: example_msg_def)
  have h6: "num_of (db_get [] ''threshold_time'' (PyInt 30)) = Inr 30" by (simp add: db_get_def)
  have h7: "(130::int) - 100 \<le> 30" by simp
  show ?thesis
    using h1 h2 h3 h4 h5 h6 h7 suspicious_within_join_window [OF h1 h2 h3 h4 h5 h6 h7] by simp
qed

text \<open>
  C2, as the code has it. A message whose data is suspicious, from a sender who is not
  the creator, sent more than the threshold after the sender joined, is suspicious when the
  group's \<open>enable_time\<close> is strictly less than the join time and the sender has no
  \<open>has_spoken_in\<close> flag for the group.
\<close>

theorem first_message_rule:
  assumes "msg_data_is_suspicious msg"
    and "get_participant e (chat_id msg) (user_id (sender msg)) = Inr p"
    and "p \<noteq> ChannelParticipantCreator"
    and "participant_date p = Inr joined"
    and "date msg = Some sent"
    and "num_of (db_get s ''threshold_time'' (PyInt 30)) = Inr threshold"
    and "sent - joined > threshold"
    and "num_of (group_db_get s (enable_time_key (chat_id msg)) PyNone) = Inr enable_time"
    and "enable_time < joined"
    and "\<not> truthy (user_db_get s (has_spoken_key (user_id (sender msg)) (chat_id msg)) (PyBool False))"
  shows "msg_is_suspicious e s msg = Inr True"
  using assms by (simp add: msg_is_suspicious_def)

theorem first_message_rule_witness:
  "msg_data_is_suspicious (example_msg\<lparr>date := Some 200\<rparr>)
   \<and> ChannelParticipant 100 \<noteq> ChannelParticipantCreator
   \<and> participant_date (ChannelParticipant 100) = Inr 100
   \<and> num_of (db_get [(''groups.5.enable_time'', PyInt 99)] ''threshold_time'' (PyInt 30)) = Inr 30
   \<and> (200::int) - 100 > 30
   \<and> num_of (group_db_get [(''groups.5.enable_time'', PyInt 99)]
         (enable_time_key (chat_id (example_msg\<lparr>date := Some 200\<rparr>))) PyNone) = Inr 99
   \<and> (99::int) < 100
   \<and> msg_is_suspicious (example_env (ChannelParticipant 100))
        [(''groups.5.enable_time'', PyInt 99)] (example_msg\<lparr>date := Some 200\<rparr>) = Inr True"
proof -
  let ?m = "example_msg\<lparr>date := Some 200\<rparr>"
  let ?s = "[(''groups.5.enable_time'', PyInt 99)]"
  have h1: "msg_data_is_suspicious ?m"
    by (simp add: msg_data_is_suspicious_def example_msg_def)
  have h2: "get_participant (example_env (ChannelParticipant 100)) (chat_id ?m)
        (user_id (sender ?m)) = Inr (ChannelParticipant 100)"
    by (simp add: example_env_def)
  have h3: "ChannelParticipant 100 \<noteq> ChannelParticipantCreator" by simp
  have h4: "participant_date (ChannelParticipant 100) = Inr 100" by simp
  have h5: "date ?m = Some 200" by simp
  have h6: "num_of (db_get ?s ''threshold_time'' (PyInt 30)) = Inr 30" by (simp add: db_get_def)
  have h7: "(200::int) - 100 > 30" by simp
  have h8: "num_of (group_db_get ?s (enable_time_key (chat_id ?m)) PyNone) = Inr 99"
    by (simp add: example_msg_def example_keys store_defs)
  have h9: "(99::int) < 100" by simp
  have h10: "\<not> truthy (user_db_get ?s (has_spoken_key (user_id (sender ?m)) (chat_id ?m)) (PyBool False))"
    by (simp add: example_msg_def example_sender_def example_keys store_defs)
  show ?thesis
    using h1 h3 h4 h6 h7 h8 h9 first_message_rule [OF h1 h2 h3 h4 h5 h6 h7 h8 h9 h10] by simp
qed

text \<open>
  C2 as stated fails where \<open>enable_time\<close> equals the join time: the code asks for
  \<open>join_time_sec > enable_time\<close>, so the message below, with suspicious data, a sender
  who joined at 100 in a group enabled at 100, sent at 200 and no flag, is allowed.
\<close>

theorem first_message_rule_boundary_counterexample:
  "msg_data_is_suspicious (example_msg\<lparr>date := Some 200\<rparr>)
   \<and> get_participant (example_env (ChannelParticipant 100))
        (chat_id (example_msg\<lparr>date := Some 200\<rparr>))
        (user_id (sender (example_msg\<lparr>date := Some 200\<rparr>))) = Inr (ChannelParticipant 100)
   \<and> (200::int) - 100 > 30
   \<and> group_db_get [(''groups.5.enable_time'', PyInt 100)]
        (enable_time_key (chat_id (example_msg\<lparr>date := Some 200\<rparr>))) PyNone = PyInt 100
   \<and> user_db_get [(''groups.5.enable_time'', PyInt 100)]
        (has_spoken_key (user_id (sender (example_msg\<lparr>date := Some 200\<rparr>)))
           (chat_id (example_msg\<lparr>date := Some 200\<rparr>))) PyNone = PyNone
   \<and> msg_is_suspicious (example_env (ChannelParticipant 100))
        [(''groups.5.enable_time'', PyInt 100)] (example_msg\<lparr>date := Some 200\<rparr>) = Inr False"
  by (simp add: msg_data_is_suspicious_def msg_is_suspicious_def example_defs example_keys
      store_defs)

section \<open>The profile checks\<close>

text \<open>
  C3. For a user who passes the gates of \<open>profile_check_nonsense\<close> (a username of 10 to
  12 characters, a capital first, lowercase letters after it, no avatar, no bio), when
  Nostril raises \<open>ValueError\<close> on the username the check logs a warning and returns
  true.
\<close>

theorem nostril_failure_is_suspicious:
  assumes "username u = Some name"
    and "10 \<le> length name" and "length name \<le> 12"
    and "hd name \<in> set ascii_uppercase"
    and "list_all (\<lambda>c. c \<in> set ascii_lowercase) (tl name)"
    and "\<not> user_photo u"
    and "get_full_user e (user_id u) = Inr full"
    and "\<not> truthy_str (about full)"
    and "nonsense e name = Inl ValueError"
  shows "profile_check_nonsense e w u =
           (Inr True, w\<lparr>effects := effects w @ [LogWarn (nostril_warning name)]\<rparr>)"
proof -
  from assms(2) have "name \<noteq> []" by auto
  with assms show ?thesis by (simp add: profile_check_nonsense_def)
qed

theorem nostril_failure_is_suspicious_witness:
  "username example_sender = Some ''Abcdefghij''
   \<and> 10 \<le> length ''Abcdefghij'' \<and> length ''Abcdefghij'' \<le> 12
   \<and> hd ''Abcdefghij'' \<in> set ascii_uppercase
   \<and> list_all (\<lambda>c. c \<in> set ascii_lowercase) (tl ''Abcdefghij'')
   \<and> \<not> user_photo example_sender
   \<and> get_full_user (example_env ChannelParticipantCreator) (user_id example_sender)
        = Inr \<lparr>about = None\<rparr>
   \<and> nonsense (example_env ChannelParticipantCreator) ''Abcdefghij'' = Inl ValueError
   \<and> profile_check_nonsense (example_env ChannelParticipantCreator) (example_world []) example_sender
        = (Inr True, \<lparr>db = [], effects = [LogWarn (nostril_warning ''Abcdefghij'')]\<rparr>)"
proof -
  let ?e = "example_env ChannelParticipantCreator"
  have h1: "username example_sender = Some ''Abcdefghij''" by (simp add: example_sender_def)
  have h2: "10 \<le> length ''Abcdefghij''" by simp
  have h3: "length ''Abcdefghij'' \<le> 12" by simp
  have h4: "hd ''Abcdefghij'' \<in> set ascii_uppercase" by (simp add: ascii_uppercase_def)
  have h5: "list_all (\<lambda>c. c \<in> set ascii_lowercase) (tl ''Abcdefghij'')"
    by (simp add: ascii_lowercase_def)
  have h6: "\<not> user_photo example_sender" by (simp add: example_sender_def)
  have h7: "get_full_user ?e (user_id example_sender) = Inr \<lparr>about = None\<rparr>"
    by (simp add: example_env_def)
  have h8: "\<not> truthy_str (about \<lparr>about = None\<rparr>)" by simp
  have h9: "nonsense ?e ''Abcdefghij'' = Inl ValueError" by (simp add: example_env_def)
  show ?thesis
    using h1 h2 h3 h4 h5 h6 h7 h9
      nostril_failure_is_suspicious [OF h1 h2 h3 h4 h5 h6 h7 h8 h9, of "example_world []"]
    by (simp add: example_world_def)
qed

text \<open>
  C9. \<open>profile_check_nonsense\<close> returns false for a user with no username, with a
  username shorter than 10 or longer than 12, with a first character that is not a capital
  A to Z, with a later character that is not a lowercase a to z, with an avatar, or whose
  full profile is fetched and has a bio. When it returns true, the user passed every one
  of these gates.
\<close>

theorem profile_check_nonsense_gates:
  "((username u = None
      \<or> (\<exists>name. username u = Some name \<and>
            (length name < 10 \<or> 12 < length name
             \<or> hd name \<notin> set ascii_uppercase
             \<or> \<not> list_all (\<lambda>c. c \<in> set ascii_lowercase) (tl name)))
      \<or> user_photo u
      \<or> (\<exists>full. get_full_user e (user_id u) = Inr full \<and> truthy_str (about full)))
     \<longrightarrow> profile_check_nonsense e w u = (Inr False, w))
   \<and> (fst (profile_check_nonsense e w u) = Inr True \<longrightarrow>
        (\<exists>name full. username u = Some name \<and> 10 \<le> length name \<and> length name \<le> 12
           \<and> hd name \<in> set ascii_uppercase
           \<and> list_all (\<lambda>c. c \<in> set ascii_lowercase) (tl name)
           \<and> \<not> user_photo u
           \<and> get_full_user e (user_id u) = Inr full \<and> \<not> truthy_str (about full)))"
  by (auto simp add: profile_check_nonsense_def split: option.splits sum.splits if_splits)

theorem profile_check_nonsense_gates_witness:
  "username (example_sender\<lparr>username := Some ''Xkqzpvbt''\<rparr>) = Some ''Xkqzpvbt''
   \<and> length ''Xkqzpvbt'' < 10
   \<and> profile_check_nonsense (example_env ChannelParticipantCreator) (example_world [])
        (example_sender\<lparr>username := Some ''Xkqzpvbt''\<rparr>) = (Inr False, example_world [])
   \<and> fst (profile_check_nonsense (example_env ChannelParticipantCreator) (example_world [])
        example_sender) = Inr True
   \<and> username example_sender = Some ''Abcdefghij''
   \<and> \<not> user_photo example_sender"
  using profile_check_nonsense_gates [of "example_sender\<lparr>username := Some ''Xkqzpvbt''\<rparr>"
      "example_env ChannelParticipantCreator" "example_world []"]
    profile_check_nonsense_gates [of example_sender
      "example_env ChannelParticipantCreator" "example_world []"]
  by (simp add: profile_check_nonsense_def example_defs ascii_uppercase_def ascii_lowercase_def)

text \<open>
  C10. \<open>profile_check_crypto\<close> reads the first name without a test: for a user whose
  first name is \<open>None\<close> it raises instead of returning a verdict, and so do
  \<open>user_is_suspicious\<close> and the handling of a new member of an enabled group,
  whenever the nonsense check has not already flagged the user.
\<close>

theorem crypto_check_needs_first_name:
  assumes "first_name u = None"
  shows "profile_check_crypto u = Inl AttributeError
         \<and> (\<forall>e w w'. profile_check_nonsense e w u = (Inr False, w')
               \<longrightarrow> user_is_suspicious e w u = (Inl AttributeError, w'))
         \<and> (\<forall>e w w' action.
               (user_added action \<or> user_joined action) \<and> \<not> user_left action
               \<and> is_enabled (db w) action \<and> action_user action = u
               \<and> profile_check_nonsense e w u = (Inr False, w')
               \<longrightarrow> on_chat_action e w action = (Inl AttributeError, w'))"
  using assms
  by (auto simp add: profile_check_crypto_def user_is_suspicious_def on_chat_action_def)

theorem crypto_check_needs_first_name_witness:
  "first_name (example_sender\<lparr>username := None\<rparr>) = None
   \<and> profile_check_crypto (example_sender\<lparr>username := None\<rparr>) = Inl AttributeError
   \<and> profile_check_nonsense (example_env ChannelParticipantCreator) (example_world [])
        (example_sender\<lparr>username := None\<rparr>) = (Inr False, example_world [])
   \<and> user_is_suspicious (example_env ChannelParticipantCreator) (example_world [])
        (example_sender\<lparr>username := None\<rparr>) = (Inl AttributeError, example_world [])"
proof -
  let ?u = "example_sender\<lparr>username := None\<rparr>"
  have h: "first_name ?u = None" by (simp add: example_sender_def)
  have n: "profile_check_nonsense (example_env ChannelParticipantCreator) (example_world []) ?u
             = (Inr False, example_world [])"
    by (simp add: profile_check_nonsense_def)
  show ?thesis using h n crypto_check_needs_first_name [OF h] by simp
qed

section \<open>What the handlers do\<close>

text \<open>
  C4. In a supergroup where antibot is off, with the bot's own participant record
  fetched: the command answers that antibot is now enabled only if the bot is the creator,
  or an admin with both the delete-messages and the ban-users right. In that case the
  store then reads \<open>enabled = True\<close> and \<open>enable_time\<close> = the current time for the
  group. Otherwise the command answers with one of the two explanations and leaves the
  state as it was.
\<close>

theorem toggle_on_requires_rights:
  assumes "is_group msg" and "is_channel msg"
    and "\<not> truthy (group_db_get (db w) (enabled_key (chat_id msg)) (PyBool False))"
    and "get_participant e (chat_id msg) (uid e) = Inr ptcp"
  shows "(fst (cmd_antibot e w msg) = Inr (now_status True) \<longrightarrow>
            ptcp = ChannelParticipantCreator
            \<or> (\<exists>joined rights. ptcp = ChannelParticipantAdmin joined rights
                  \<and> delete_messages rights \<and> ban_users rights))
      \<and> (ptcp = ChannelParticipantCreator
            \<or> (\<exists>joined rights. ptcp = ChannelParticipantAdmin joined rights
                  \<and> delete_messages rights \<and> ban_users rights) \<longrightarrow>
            cmd_antibot e w msg = (Inr (now_status True), enable_group e w (chat_id msg))
            \<and> group_db_get (db (snd (cmd_antibot e w msg))) (enabled_key (chat_id msg)) (PyBool False)
                = PyBool True
            \<and> group_db_get (db (snd (cmd_antibot e w msg))) (enable_time_key (chat_id msg)) PyNone
                = PyInt (time_sec e))
      \<and> (\<not> (ptcp = ChannelParticipantCreator
            \<or> (\<exists>joined rights. ptcp = ChannelParticipantAdmin joined rights
                  \<and> delete_messages rights \<and> ban_users rights)) \<longrightarrow>
            (fst (cmd_antibot e w msg) = Inr missing_rights
               \<or> fst (cmd_antibot e w msg) = Inr not_an_admin)
            \<and> snd (cmd_antibot e w msg) = w)"
  using assms
  by (cases ptcp) (auto simp add: cmd_antibot_def enable_group_reads status_strings)

theorem toggle_on_requires_rights_witness:
  "is_group example_msg \<and> is_channel example_msg
   \<and> \<not> truthy (group_db_get (db (example_world [])) (enabled_key (chat_id example_msg)) (PyBool False))
   \<and> get_participant (example_env (ChannelParticipant 100)) (chat_id example_msg)
        (uid (example_env (ChannelParticipant 100))) = Inr (ChannelParticipant 100)
   \<and> cmd_antibot (example_env (ChannelParticipant 100)) (example_world []) example_msg
        = (Inr not_an_admin, example_world [])
   \<and> get_participant (example_env ChannelParticipantCreator) (chat_id example_msg)
        (uid (example_env ChannelParticipantCreator)) = Inr ChannelParticipantCreator
   \<and> fst (cmd_antibot (example_env ChannelParticipantCreator) (example_world []) example_msg)
        = Inr (now_status True)
   \<and> group_db_get (db (snd (cmd_antibot (example_env ChannelParticipantCreator) (example_world [])
        example_msg))) (enable_time_key (chat_id example_msg)) PyNone = PyInt 1000"
proof -
  have h1: "is_group example_msg" by (simp add: example_msg_def)
  have h2: "is_channel example_msg" by (simp add: example_msg_def)
  have h3: "\<not> truthy (group_db_get (db (example_world [])) (enabled_key (chat_id example_msg))
                (PyBool False))"
    by (simp add: example_world_def store_defs)
  have h4: "get_participant (example_env (ChannelParticipant 100)) (chat_id example_msg)
        (uid (example_env (ChannelParticipant 100))) = Inr (ChannelParticipant 100)"
    by (simp add: example_env_def)
  have h5: "get_participant (example_env ChannelParticipantCreator) (chat_id example_msg)
        (uid (example_env ChannelParticipantCreator)) = Inr ChannelParticipantCreator"
    by (simp add: example_env_def)
  have t: "time_sec (example_env ChannelParticipantCreator) = 1000"
    by (simp add: example_env_def)
  have n: "cmd_antibot (example_env (ChannelParticipant 100)) (example_world []) example_msg
        = (Inr not_an_admin, example_world [])"
    using h1 h2 h3 h4 by (simp add: cmd_antibot_def)
  show ?thesis
    using h1 h2 h3 h4 h5 n t toggle_on_requires_rights [OF h1 h2 h3 h5]
    by (simp add: enable_group_reads)
qed

text \<open>
  C6. For a message in a group where antibot is enabled: when \<open>msg_is_suspicious\<close>
  is true, \<open>take_action\<close> runs against the sender (the sender is kicked) and the store is
  left as it was, so no flag is written; when it is false, the sender's
  \<open>has_spoken_in\<close> flag for the group is written and reads true afterwards.
\<close>

theorem on_message_verdict:
  assumes "is_enabled (db w) msg"
  shows "(msg_is_suspicious e (db w) msg = Inr True \<longrightarrow>
            on_message e w msg = (Inr (), take_action w msg (sender msg))
            \<and> db (snd (on_message e w msg)) = db w
            \<and> KickParticipant (chat_id msg) (user_id (sender msg))
                 \<in> set (effects (snd (on_message e w msg))))
       \<and> (msg_is_suspicious e (db w) msg = Inr False \<longrightarrow>
            on_message e w msg =
              (Inr (), w\<lparr>db := user_db_put (db w) (has_spoken_key (sender_id msg) (chat_id msg))
                                (PyBool True)\<rparr>)
            \<and> user_db_get (db (snd (on_message e w msg)))
                 (has_spoken_key (sender_id msg) (chat_id msg)) (PyBool False) = PyBool True)"
  using assms by (simp add: on_message_def take_action_def user_db_get_put_same)

theorem on_message_verdict_witness:
  "is_enabled (db (example_world [(''groups.5.enabled'', PyBool True)])) example_msg
   \<and> msg_is_suspicious (example_env (ChannelParticipant 100))
        (db (example_world [(''groups.5.enabled'', PyBool True)])) example_msg = Inr True
   \<and> db (snd (on_message (example_env (ChannelParticipant 100))
        (example_world [(''groups.5.enabled'', PyBool True)]) example_msg))
        = [(''groups.5.enabled'', PyBool True)]
   \<and> msg_is_suspicious (example_env ChannelParticipantCreator)
        (db (example_world [(''groups.5.enabled'', PyBool True)])) example_msg = Inr False
   \<and> user_db_get (db (snd (on_message (example_env ChannelParticipantCreator)
        (example_world [(''groups.5.enabled'', PyBool True)]) example_msg)))
        (has_spoken_key (sender_id example_msg) (chat_id example_msg)) (PyBool False) = PyBool True"
proof -
  let ?w = "example_world [(''groups.5.enabled'', PyBool True)]"
  have h: "is_enabled (db ?w) example_msg"
    by (simp add: is_enabled_def example_world_def example_msg_def example_keys store_defs)
  have s1: "msg_is_suspicious (example_env (ChannelParticipant 100)) (db ?w) example_msg = Inr True"
    by (simp add: msg_is_suspicious_def msg_data_is_suspicious_def example_defs example_keys
        store_defs)
  have s2: "msg_is_suspicious (example_env ChannelParticipantCreator) (db ?w) example_msg = Inr False"
    by (simp add: msg_is_suspicious_def example_env_def)
  have w: "db ?w = [(''groups.5.enabled'', PyBool True)]" by (simp add: example_world_def)
  show ?thesis
    using h s1 s2 w
      on_message_verdict [OF h, of "example_env (ChannelParticipant 100)"]
      on_message_verdict [OF h, of "example_env ChannelParticipantCreator"]
    by (simp add: take_action_def user_db_get_put_same example_world_def)
qed

section \<open>Purging a group\<close>

text \<open>A loop of deletes leaves the pairs whose key no step deleted.\<close>

lemma set_delete_loop:
  "set (fold (\<lambda>(key, _) acc. if P key then prefixed_delete ns acc key else acc) xs s)
     = {kv \<in> set s. \<not> (\<exists>key \<in> fst ` set xs. P key \<and> fst kv = ns @ key)}"
proof (induction xs arbitrary: s)
  case Nil
  then show ?case by simp
next
  case (Cons x xs)
  obtain key val where x: "x = (key, val)" by (cases x)
  show ?case
    by (auto simp add: x Cons.IH prefixed_delete_def db_delete_def AList.delete_eq)
qed

lemma iterator_keys:
  "(key, v) \<in> set (prefixed_iterator ns s p) \<longleftrightarrow>
     (\<exists>k. (k, v) \<in> set s \<and> prefix (ns @ p) k \<and> key = drop (length ns) k)"
  by (auto simp add: prefixed_iterator_def db_iterator_def)

lemma prefix_restore:
  assumes "prefix (ns @ p) k"
  shows "ns @ drop (length ns) k = k"
proof -
  from assms obtain r where "k = (ns @ p) @ r" by (auto simp add: prefix_def)
  then show ?thesis by simp
qed

text \<open>The keys an iteration yields, put back under the namespace, are the keys it matched.\<close>

lemma iterated_key:
  "(\<exists>key \<in> fst ` set (prefixed_iterator ns s p). P key \<and> k = ns @ key)
     \<longleftrightarrow> (k \<in> fst ` set s \<and> prefix (ns @ p) k \<and> P (drop (length ns) k))"
proof
  assume "\<exists>key \<in> fst ` set (prefixed_iterator ns s p). P key \<and> k = ns @ key"
  then obtain key v where kv: "(key, v) \<in> set (prefixed_iterator ns s p)"
    and pk: "P key" and k: "k = ns @ key"
    by auto
  from kv obtain k' where k': "(k', v) \<in> set s" "prefix (ns @ p) k'" "key = drop (length ns) k'"
    unfolding iterator_keys by blast
  from k'(2) have "ns @ drop (length ns) k' = k'" by (rule prefix_restore)
  with k k'(3) have same: "k = k'" by simp
  have "k \<in> fst ` set s" using k'(1) same by force
  moreover have "prefix (ns @ p) k" using k'(2) same by simp
  moreover have "P (drop (length ns) k)" using pk k'(3) same by simp
  ultimately show "k \<in> fst ` set s \<and> prefix (ns @ p) k \<and> P (drop (length ns) k)" by simp
next
  assume a: "k \<in> fst ` set s \<and> prefix (ns @ p) k \<and> P (drop (length ns) k)"
  then obtain v where v: "(k, v) \<in> set s" by force
  from a have pre: "prefix (ns @ p) k" and pk: "P (drop (length ns) k)" by simp_all
  have "(drop (length ns) k, v) \<in> set (prefixed_iterator ns s p)"
    unfolding iterator_keys using v pre by blast
  then have "drop (length ns) k \<in> fst ` set (prefixed_iterator ns s p)" by force
  moreover have "k = ns @ drop (length ns) k" using prefix_restore [OF pre] by simp
  ultimately show "\<exists>key \<in> fst ` set (prefixed_iterator ns s p). P key \<and> k = ns @ key"
    using pk by blast
qed

lemma set_purge_loop:
  "set (fold (\<lambda>(key, _) acc. if P key then prefixed_delete ns acc key else acc)
          (prefixed_iterator ns s p) s)
     = {kv \<in> set s. \<not> (prefix (ns @ p) (fst kv) \<and> P (drop (length ns) (fst kv)))}"
proof -
  have "fst kv \<in> fst ` set s" if "kv \<in> set s" for kv using that by simp
  then show ?thesis
    unfolding set_delete_loop iterated_key by blast
qed

lemma first_loop_is_purge_loop:
  "fold (\<lambda>(key, _) acc. prefixed_delete ns acc key) xs s
     = fold (\<lambda>(key, _) acc. if (\<lambda>_. True) key then prefixed_delete ns acc key else acc) xs s"
  by simp

lemma set_clear_group:
  "set (clear_group g s) =
     {kv \<in> set s. \<not> prefix (''groups.'' @ str_int g @ ''.'') (fst kv)
        \<and> \<not> (prefix ''users.'' (fst kv)
              \<and> suffix (''.has_spoken_in_'' @ str_int g) (drop (length ''users.'') (fst kv)))}"
proof -
  let ?s1 = "fold (\<lambda>(key, _) acc. prefixed_delete ''groups.'' acc key)
               (prefixed_iterator ''groups.'' s (str_int g @ ''.'')) s"
  have s1: "set ?s1 = {kv \<in> set s. \<not> prefix (''groups.'' @ str_int g @ ''.'') (fst kv)}"
    unfolding first_loop_is_purge_loop set_purge_loop by simp
  have "clear_group g s
          = fold (\<lambda>(key, _) acc.
                   if suffix (''.has_spoken_in_'' @ str_int g) key
                   then prefixed_delete ''users.'' acc key else acc)
              (prefixed_iterator ''users.'' ?s1 []) ?s1"
    by (simp only: clear_group_def Let_def group_db_delete_def group_db_iterator_def
        user_db_delete_def user_db_iterator_def)
  then have "set (clear_group g s)
          = {kv \<in> set ?s1. \<not> (prefix (''users.'' @ []) (fst kv)
               \<and> suffix (''.has_spoken_in_'' @ str_int g) (drop (length ''users.'') (fst kv)))}"
    by (simp only: set_purge_loop)
  then show ?thesis unfolding s1 by auto
qed

lemma clear_group_no_group_keys:
  "group_db_iterator (clear_group g s) (str_int g @ ''.'') = []"
proof -
  have "\<not> prefix (''groups.'' @ str_int g @ ''.'') (fst kv)" if "kv \<in> set (clear_group g s)" for kv
    using that unfolding set_clear_group by simp
  then show ?thesis
    by (auto simp add: group_db_iterator_def prefixed_iterator_def db_iterator_def
        filter_empty_conv)
qed

lemma clear_group_no_flags:
  "filter (\<lambda>(key, _). suffix (''.has_spoken_in_'' @ str_int g) key)
     (user_db_iterator (clear_group g s) []) = []"
proof -
  have none: "\<not> (prefix ''users.'' (fst kv)
              \<and> suffix (''.has_spoken_in_'' @ str_int g) (drop (length ''users.'') (fst kv)))"
    if "kv \<in> set (clear_group g s)" for kv
    using that unfolding set_clear_group by simp
  have "\<not> suffix (''.has_spoken_in_'' @ str_int g) key"
    if "(key, v) \<in> set (prefixed_iterator ''users.'' (clear_group g s) [])" for key v
  proof -
    from that obtain k where k: "(k, v) \<in> set (clear_group g s)" "prefix (''users.'' @ []) k"
      "key = drop (length ''users.'') k"
      unfolding iterator_keys by blast
    from none [OF k(1)] k(2) k(3) show ?thesis by simp
  qed
  then show ?thesis
    unfolding user_db_iterator_def filter_empty_conv by blast
qed

text \<open>
  C5, as the code has it. After the command turns antibot off in a supergroup, and after
  the bot itself leaves a group in which antibot is enabled, the group namespace holds no
  key under the group's prefix and the user namespace holds no \<open>has_spoken_in\<close> flag
  for the group.
\<close>

theorem purge_on_disable:
  "(is_group msg \<and> is_channel msg
      \<and> truthy (group_db_get (db w) (enabled_key (chat_id msg)) (PyBool False)) \<longrightarrow>
        cmd_antibot e w msg
          = (Inr (now_status False), w\<lparr>db := clear_group (chat_id msg) (db w)\<rparr>)
        \<and> group_db_iterator (db (snd (cmd_antibot e w msg))) (str_int (chat_id msg) @ ''.'') = []
        \<and> filter (\<lambda>(key, _). suffix (''.has_spoken_in_'' @ str_int (chat_id msg)) key)
             (user_db_iterator (db (snd (cmd_antibot e w msg))) []) = [])
   \<and> (user_left action \<and> is_enabled (db w) action \<and> action_user_id action = uid e \<longrightarrow>
        fst (on_chat_action e w action) = Inr ()
        \<and> group_db_iterator (db (snd (on_chat_action e w action)))
             (str_int (chat_id action) @ ''.'') = []
        \<and> filter (\<lambda>(key, _). suffix (''.has_spoken_in_'' @ str_int (chat_id action)) key)
             (user_db_iterator (db (snd (on_chat_action e w action))) []) = [])"
proof (intro conjI impI)
  assume off: "is_group msg \<and> is_channel msg
      \<and> truthy (group_db_get (db w) (enabled_key (chat_id msg)) (PyBool False))"
  then show c: "cmd_antibot e w msg
          = (Inr (now_status False), w\<lparr>db := clear_group (chat_id msg) (db w)\<rparr>)"
    by (simp add: cmd_antibot_def)
  have d: "db (snd (cmd_antibot e w msg)) = clear_group (chat_id msg) (db w)"
    unfolding c by simp
  show "group_db_iterator (db (snd (cmd_antibot e w msg))) (str_int (chat_id msg) @ ''.'') = []"
    unfolding d by (rule clear_group_no_group_keys)
  show "filter (\<lambda>(key, _). suffix (''.has_spoken_in_'' @ str_int (chat_id msg)) key)
             (user_db_iterator (db (snd (cmd_antibot e w msg))) []) = []"
    unfolding d by (rule clear_group_no_flags)
next
  assume left: "user_left action \<and> is_enabled (db w) action \<and> action_user_id action = uid e"
  then show "fst (on_chat_action e w action) = Inr ()"
    by (simp add: on_chat_action_def Let_def)
  from left have d: "db (snd (on_chat_action e w action))
      = clear_group (chat_id action)
          (user_db_delete (db w) (has_spoken_key (action_user_id action) (chat_id action)))"
    by (simp add: on_chat_action_def Let_def)
  show "group_db_iterator (db (snd (on_chat_action e w action)))
             (str_int (chat_id action) @ ''.'') = []"
    unfolding d by (rule clear_group_no_group_keys)
  show "filter (\<lambda>(key, _). suffix (''.has_spoken_in_'' @ str_int (chat_id action)) key)
             (user_db_iterator (db (snd (on_chat_action e w action))) []) = []"
    unfolding d by (rule clear_group_no_flags)
qed

theorem purge_on_disable_witness:
  "is_group example_msg \<and> is_channel example_msg
   \<and> truthy (group_db_get (db (example_world example_store)) (enabled_key (chat_id example_msg))
        (PyBool False))
   \<and> group_db_iterator (db (example_world example_store)) (str_int (chat_id example_msg) @ ''.'')
        = [(''5.enabled'', PyBool True), (''5.enable_time'', PyInt 50)]
   \<and> group_db_iterator (db (snd (cmd_antibot (example_env ChannelParticipantCreator)
        (example_world example_store) example_msg))) (str_int (chat_id example_msg) @ ''.'') = []
   \<and> user_left example_departure
   \<and> is_enabled (db (example_world example_store)) example_departure
   \<and> action_user_id example_departure = uid (example_env ChannelParticipantCreator)
   \<and> filter (\<lambda>(key, _). suffix (''.has_spoken_in_'' @ str_int (chat_id example_departure)) key)
        (user_db_iterator (db (snd (on_chat_action (example_env ChannelParticipantCreator)
           (example_world example_store) example_departure))) []) = []"
proof -
  have h1: "is_group example_msg \<and> is_channel example_msg
     \<and> truthy (group_db_get (db (example_world example_store)) (enabled_key (chat_id example_msg))
          (PyBool False))"
    by (simp add: example_msg_def example_world_def example_store_def example_keys store_defs)
  have h2: "user_left example_departure
     \<and> is_enabled (db (example_world example_store)) example_departure
     \<and> action_user_id example_departure = uid (example_env ChannelParticipantCreator)"
    by (simp add: example_departure_def is_enabled_def example_world_def example_store_def
        example_env_def example_keys store_defs)
  have b: "group_db_iterator (db (example_world example_store))
             (str_int (chat_id example_msg) @ ''.'')
        = [(''5.enabled'', PyBool True), (''5.enable_time'', PyInt 50)]"
    by (simp add: example_msg_def example_world_def example_store_def example_keys
        group_db_iterator_def prefixed_iterator_def db_iterator_def)
  show ?thesis
    using h1 h2 b
      purge_on_disable [of example_msg "example_world example_store"
        "example_env ChannelParticipantCreator" example_departure]
    by blast
qed

text \<open>
  C5 as stated fails for the bot's departure from a group where antibot is not enabled:
  \<open>on_chat_action\<close> purges only behind \<open>is_enabled\<close>. With \<open>enabled = False\<close> stored
  for group 5 and a flag left for it, the bot's departure deletes neither.
\<close>

theorem departure_without_purge_counterexample:
  "user_left example_departure
   \<and> action_user_id example_departure = uid (example_env ChannelParticipantCreator)
   \<and> chat_id example_departure = 5
   \<and> on_chat_action (example_env ChannelParticipantCreator)
        (example_world [(''groups.5.enabled'', PyBool False),
                        (''users.7.has_spoken_in_5'', PyBool True)]) example_departure
       = (Inr (), example_world [(''groups.5.enabled'', PyBool False),
                                 (''users.7.has_spoken_in_5'', PyBool True)])
   \<and> group_db_iterator [(''groups.5.enabled'', PyBool False),
                         (''users.7.has_spoken_in_5'', PyBool True)] (str_int 5 @ ''.'')
       = [(''5.enabled'', PyBool False)]
   \<and> filter (\<lambda>(key, _). suffix (''.has_spoken_in_'' @ str_int 5) key)
        (user_db_iterator [(''groups.5.enabled'', PyBool False),
                           (''users.7.has_spoken_in_5'', PyBool True)] [])
       = [(''7.has_spoken_in_5'', PyBool True)]"
  by (simp add: on_chat_action_def is_enabled_def example_departure_def example_world_def
      example_env_def example_keys store_defs group_db_iterator_def user_db_iterator_def
      prefixed_iterator_def db_iterator_def suffix_to_prefix)

end
